theory Spec2Isabelle
  imports Main
begin

section \<open>The transcription server (server.js)\<close>

text \<open>
  The server accepts one uploaded video per request, runs an external decoder to extract
  the audio track, runs one of two external speech recognisers on the audio, answers with
  the transcript or an error, and deletes its temporary files.

  JavaScript strings are modelled as \<^typ>\<open>string\<close>: a list of code units below 256.
  Everything the code does to the outside (the file system, child processes, the console)
  is explicit: the file system is part of the state, a child process is a function of the
  command line and the file system that the caller supplies, and every effect is appended
  to a trace.
\<close>

subsection \<open>Library functions of JavaScript and Node.js\<close>

text \<open>\<open>String.prototype.toLowerCase\<close>: on code units below 256 only the letters A to Z
  change into ASCII letters, and no other code unit is mapped to an ASCII letter.\<close>

definition toLowerCase_char :: "char \<Rightarrow> char" where
  "toLowerCase_char c =
     (case map_of (zip ''ABCDEFGHIJKLMNOPQRSTUVWXYZ'' ''abcdefghijklmnopqrstuvwxyz'') c of
        None \<Rightarrow> c
      | Some d \<Rightarrow> d)"

definition toLowerCase :: "string \<Rightarrow> string" where
  "toLowerCase s = map toLowerCase_char s"

text \<open>\<open>String.prototype.slice(1)\<close>.\<close>

definition slice1 :: "string \<Rightarrow> string" where
  "slice1 s = drop 1 s"

text \<open>\<open>String.prototype.trim\<close> removes white space and line terminators from both ends:
  tab, line feed, vertical tab, form feed, carriage return, space and no-break space are
  the ones below 256.\<close>

definition is_ws :: "char \<Rightarrow> bool" where
  "is_ws c = (c \<in> set [CHR 0x09, CHR 0x0A, CHR 0x0B, CHR 0x0C, CHR 0x0D, CHR 0x20, CHR 0xA0])"

definition trim :: "string \<Rightarrow> string" where
  "trim s = rev (dropWhile is_ws (rev (dropWhile is_ws s)))"

text \<open>The POSIX \<open>path\<close> module. The last segment of a path is what follows its last slash,
  trailing slashes set aside.\<close>

definition is_slash :: "char \<Rightarrow> bool" where
  "is_slash c = (c = CHR ''/'')"

definition is_dot :: "char \<Rightarrow> bool" where
  "is_dot c = (c = CHR ''.'')"

definition last_segment :: "string \<Rightarrow> string" where
  "last_segment p =
     rev (takeWhile (\<lambda>c. \<not> is_slash c) (dropWhile is_slash (rev p)))"

text \<open>\<open>path.extname\<close>: from the last dot of the last segment to its end; empty when the
  segment has no dot, when its only dot is its first character, and for \<open>..\<close>.\<close>

definition extname :: "string \<Rightarrow> string" where
  "extname p =
     (let b = last_segment p;
          r = takeWhile (\<lambda>c. \<not> is_dot c) (rev b)
      in if list_ex is_dot b then
           (if Suc (length r) = length b then []
            else if b = ''..'' then []
            else CHR ''.'' # rev r)
         else [])"

text \<open>\<open>path.basename(p, ext)\<close>: the last segment, without the suffix \<open>ext\<close> when the
  segment ends with it and is longer than it.\<close>

definition basename :: "string \<Rightarrow> string \<Rightarrow> string" where
  "basename p ext =
     (let b = last_segment p in
      if ext = p then []
      else if ext = [] then b
      else if length ext < length b \<and> drop (length b - length ext) b = ext
        then take (length b - length ext) b
      else b)"

text \<open>A regular expression that is an alternation of literals, without anchors:
  \<open>RegExp.prototype.test\<close> succeeds when one of the literals occurs somewhere in the
  subject.\<close>

fun starts_with :: "string \<Rightarrow> string \<Rightarrow> bool" where
  "starts_with [] s = True"
| "starts_with (a # as) [] = False"
| "starts_with (a # as) (c # cs) = (a = c \<and> starts_with as cs)"

fun regex_alt_test :: "string list \<Rightarrow> string \<Rightarrow> bool" where
  "regex_alt_test alts [] = list_ex (\<lambda>a. starts_with a []) alts"
| "regex_alt_test alts (c # cs) =
     (list_ex (\<lambda>a. starts_with a (c # cs)) alts \<or> regex_alt_test alts cs)"

subsection \<open>The upload filter\<close>

text \<open>
  \<^verbatim>\<open>
  fileFilter: (req, file, cb) => {
      const allowedTypes = /mp4|mov|avi|webm|mkv|flv|wmv/;
      const ext = path.extname(file.originalname).toLowerCase().slice(1);
      if (allowedTypes.test(ext)) { cb(null, true); }
      else { cb(new Error('Invalid file type. Only video files are allowed.')); }
  }
  \<close>
\<close>

definition allowedTypes :: "string list" where
  "allowedTypes = [''mp4'', ''mov'', ''avi'', ''webm'', ''mkv'', ''flv'', ''wmv'']"

definition lowered_ext :: "string \<Rightarrow> string" where
  "lowered_ext originalname = slice1 (toLowerCase (extname originalname))"

definition fileFilter :: "string \<Rightarrow> bool" where
  "fileFilter originalname = regex_alt_test allowedTypes (lowered_ext originalname)"

subsection \<open>Errors, the file system, child processes and the trace\<close>

text \<open>A JavaScript \<open>Error\<close> object: its message, and the \<open>stderr\<close> property that only the
  rejection of \<open>execPromise\<close> sets.\<close>

record js_error =
  message :: string
  stderr_of :: "string option"

definition new_Error :: "string \<Rightarrow> js_error" where
  "new_Error msg = \<lparr>message = msg, stderr_of = None\<rparr>"

text \<open>The file system maps a path to the content of the file there. The calls of the
  \<open>fs\<close> module raise where the environment says so (\<open>faults\<close> gives the message of the
  error: a read-only directory, a path that is a directory, a file in use) and where the
  file is missing.\<close>

datatype fsop = OpRead | OpWrite | OpUnlink

record filesystem =
  files :: "string \<rightharpoonup> string"
  faults :: "fsop \<Rightarrow> string \<Rightarrow> string option"

text \<open>A child process started by \<open>execPromise\<close> ends with exit code 0 (its standard output
  and standard error are the result) or the promise rejects (with the error's message and
  the captured standard error): for a non-zero exit code, a command that is not found, an
  output over \<open>maxBuffer\<close>. The process may change the file system. What it does is not
  code of the server, so it is a parameter of the model.\<close>

datatype exec_result = ExecOk string string | ExecFail string string

type_synonym exec_oracle = "string \<Rightarrow> filesystem \<Rightarrow> exec_result \<times> filesystem"

datatype event =
    Console_log "string list"
  | Console_error "string list"
  | Exec string
  | Stored string
  | WriteFile string
  | ReadFile string
  | Unlink string

record state =
  fs :: filesystem
  trace :: "event list"

definition emit :: "event \<Rightarrow> state \<Rightarrow> state" where
  "emit e st = st\<lparr>trace := trace st @ [e]\<rparr>"

definition console_log :: "string list \<Rightarrow> state \<Rightarrow> state" where
  "console_log args st = emit (Console_log args) st"

definition console_error :: "string list \<Rightarrow> state \<Rightarrow> state" where
  "console_error args st = emit (Console_error args) st"

definition show_prop :: "string option \<Rightarrow> string" where
  "show_prop v = (case v of None \<Rightarrow> ''undefined'' | Some s \<Rightarrow> s)"

definition existsSync :: "state \<Rightarrow> string \<Rightarrow> bool" where
  "existsSync st p = (case files (fs st) p of None \<Rightarrow> False | Some c \<Rightarrow> True)"

definition put_file :: "string \<Rightarrow> string \<Rightarrow> state \<Rightarrow> state" where
  "put_file p c st = st\<lparr>fs := (fs st)\<lparr>files := (files (fs st))(p \<mapsto> c)\<rparr>\<rparr>"

definition remove_file :: "string \<Rightarrow> state \<Rightarrow> state" where
  "remove_file p st = st\<lparr>fs := (fs st)\<lparr>files := (files (fs st))(p := None)\<rparr>\<rparr>"

definition writeFileSync :: "string \<Rightarrow> string \<Rightarrow> state \<Rightarrow> (js_error + unit) \<times> state" where
  "writeFileSync p c st =
     (let st1 = emit (WriteFile p) st in
      case faults (fs st) OpWrite p of
        Some m \<Rightarrow> (Inl (new_Error m), st1)
      | None \<Rightarrow> (Inr (), put_file p c st1))"

definition readFileSync :: "string \<Rightarrow> state \<Rightarrow> (js_error + string) \<times> state" where
  "readFileSync p st =
     (let st1 = emit (ReadFile p) st in
      case faults (fs st) OpRead p of
        Some m \<Rightarrow> (Inl (new_Error m), st1)
      | None \<Rightarrow>
          (case files (fs st) p of
             None \<Rightarrow> (Inl (new_Error ''ENOENT: no such file or directory''), st1)
           | Some c \<Rightarrow> (Inr c, st1)))"

definition unlinkSync :: "string \<Rightarrow> state \<Rightarrow> (js_error + unit) \<times> state" where
  "unlinkSync p st =
     (let st1 = emit (Unlink p) st in
      case faults (fs st) OpUnlink p of
        Some m \<Rightarrow> (Inl (new_Error m), st1)
      | None \<Rightarrow>
          (case files (fs st) p of
             None \<Rightarrow> (Inl (new_Error ''ENOENT: no such file or directory''), st1)
           | Some c \<Rightarrow> (Inr (), remove_file p st1)))"

definition execPromise :: "exec_oracle \<Rightarrow> string \<Rightarrow> state \<Rightarrow> (js_error + string \<times> string) \<times> state" where
  "execPromise exec cmd st =
     (let st1 = emit (Exec cmd) st in
      case exec cmd (fs st) of
        (ExecOk out err, w) \<Rightarrow> (Inr (out, err), st1\<lparr>fs := w\<rparr>)
      | (ExecFail msg err, w) \<Rightarrow>
          (Inl \<lparr>message = msg, stderr_of = Some err\<rparr>, st1\<lparr>fs := w\<rparr>))"

subsection \<open>Audio extraction\<close>

text \<open>
  \<^verbatim>\<open>
  async function extractAudio(videoPath, audioPath) {
      try {
          const command = `ffmpeg -i "${videoPath}" -vn -acodec pcm_s16le -ar 16000 -ac 1 "${audioPath}"`;
          await execPromise(command);
          console.log('Audio extracted successfully');
      } catch (error) {
          console.error('FFmpeg error:', error.stderr);
          throw new Error('Failed to extract audio from video');
      }
  }
  \<close>
\<close>

definition ffmpeg_command :: "string \<Rightarrow> string \<Rightarrow> string" where
  \<open>ffmpeg_command videoPath audioPath =
     ''ffmpeg -i "'' @ videoPath @ ''" -vn -acodec pcm_s16le -ar 16000 -ac 1 "'' @ audioPath @ ''"''\<close>

definition extractAudio :: "exec_oracle \<Rightarrow> string \<Rightarrow> string \<Rightarrow> state \<Rightarrow> (js_error + unit) \<times> state" where
  "extractAudio exec videoPath audioPath st =
     (case execPromise exec (ffmpeg_command videoPath audioPath) st of
        (Inr r, st1) \<Rightarrow> (Inr (), console_log [''Audio extracted successfully''] st1)
      | (Inl error, st1) \<Rightarrow>
          (Inl (new_Error ''Failed to extract audio from video''),
           console_error [''FFmpeg error:'', show_prop (stderr_of error)] st1))"

subsection \<open>The two transcription strategies\<close>

text \<open>
  \<^verbatim>\<open>
  async function transcribeWithWhisper(audioPath) {
      try {
          const command = `whisper "${audioPath}" --model base --language en --output_format txt --output_dir /tmp`;
          console.log('Running Whisper transcription...');
          const { stdout, stderr } = await execPromise(command, { maxBuffer: 10 * 1024 * 1024 });
          const baseName = path.basename(audioPath, path.extname(audioPath));
          const transcriptPath = `/tmp/${baseName}.txt`;
          if (fs.existsSync(transcriptPath)) {
              const transcript = fs.readFileSync(transcriptPath, 'utf8');
              fs.unlinkSync(transcriptPath);
              return transcript.trim();
          } else {
              throw new Error('Transcript file not generated');
          }
      } catch (error) {
          console.error('Whisper error:', error);
          throw new Error('Transcription failed: ' + error.message);
      }
  }
  \<close>
\<close>

definition whisper_command :: "string \<Rightarrow> string" where
  \<open>whisper_command audioPath =
     ''whisper "'' @ audioPath @ ''" --model base --language en --output_format txt --output_dir /tmp''\<close>

definition transcriptPath_of :: "string \<Rightarrow> string" where
  "transcriptPath_of audioPath = ''/tmp/'' @ basename audioPath (extname audioPath) @ ''.txt''"

definition whisper_catch :: "js_error \<Rightarrow> state \<Rightarrow> (js_error + string) \<times> state" where
  "whisper_catch error st =
     (Inl (new_Error (''Transcription failed: '' @ message error)),
      console_error [''Whisper error:'', message error] st)"

definition transcribeWithWhisper :: "exec_oracle \<Rightarrow> string \<Rightarrow> state \<Rightarrow> (js_error + string) \<times> state" where
  "transcribeWithWhisper exec audioPath st =
     (let command = whisper_command audioPath;
          st1 = console_log [''Running Whisper transcription...''] st
      in case execPromise exec command st1 of
           (Inl error, st2) \<Rightarrow> whisper_catch error st2
         | (Inr r, st2) \<Rightarrow>
             (let transcriptPath = transcriptPath_of audioPath in
              if existsSync st2 transcriptPath then
                (case readFileSync transcriptPath st2 of
                   (Inl error, st3) \<Rightarrow> whisper_catch error st3
                 | (Inr transcript, st3) \<Rightarrow>
                     (case unlinkSync transcriptPath st3 of
                        (Inl error, st4) \<Rightarrow> whisper_catch error st4
                      | (Inr u, st4) \<Rightarrow> (Inr (trim transcript), st4)))
              else whisper_catch (new_Error ''Transcript file not generated'') st2))"

text \<open>
  \<^verbatim>\<open>
  async function transcribeWithFasterWhisper(audioPath) {
      try {
          const pythonScript = `
  import sys
  from faster_whisper import WhisperModel

  model = WhisperModel("base", device="cpu", compute_type="int8")
  segments, info = model.transcribe("${audioPath}", language="en", beam_size=5)

  transcript = " ".join([segment.text for segment in segments])
  print(transcript)
  `;
          const scriptPath = '/tmp/transcribe.py';
          fs.writeFileSync(scriptPath, pythonScript);
          console.log('Running Faster-Whisper transcription...');
          const { stdout } = await execPromise(`python3 ${scriptPath}`, { maxBuffer: 10 * 1024 * 1024 });
          fs.unlinkSync(scriptPath);
          return stdout.trim();
      } catch (error) {
          console.error('Faster-Whisper error:', error);
          throw new Error('Transcription failed: ' + error.message);
      }
  }
  \<close>
\<close>

definition script_lines :: "string list \<Rightarrow> string" where
  "script_lines ls = concat (map (\<lambda>l. l @ [CHR 0x0A]) ls)"

definition pythonScript :: "string \<Rightarrow> string" where
  \<open>pythonScript audioPath =
     script_lines
       [[],
        ''import sys'',
        ''from faster_whisper import WhisperModel'',
        [],
        ''model = WhisperModel("base", device="cpu", compute_type="int8")'',
        ''segments, info = model.transcribe("'' @ audioPath @ ''", language="en", beam_size=5)'',
        [],
        ''transcript = " ".join([segment.text for segment in segments])'',
        ''print(transcript)'']\<close>

definition scriptPath :: string where
  "scriptPath = ''/tmp/transcribe.py''"

definition faster_catch :: "js_error \<Rightarrow> state \<Rightarrow> (js_error + string) \<times> state" where
  "faster_catch error st =
     (Inl (new_Error (''Transcription failed: '' @ message error)),
      console_error [''Faster-Whisper error:'', message error] st)"

definition transcribeWithFasterWhisper :: "exec_oracle \<Rightarrow> string \<Rightarrow> state \<Rightarrow> (js_error + string) \<times> state" where
  "transcribeWithFasterWhisper exec audioPath st =
     (case writeFileSync scriptPath (pythonScript audioPath) st of
        (Inl error, st1) \<Rightarrow> faster_catch error st1
      | (Inr u, st1) \<Rightarrow>
          (let st2 = console_log [''Running Faster-Whisper transcription...''] st1 in
           case execPromise exec (''python3 '' @ scriptPath) st2 of
             (Inl error, st3) \<Rightarrow> faster_catch error st3
           | (Inr (stdout, stderr), st3) \<Rightarrow>
               (case unlinkSync scriptPath st3 of
                  (Inl error, st4) \<Rightarrow> faster_catch error st4
                | (Inr u, st4) \<Rightarrow> (Inr (trim stdout), st4))))"

subsection \<open>The handler of POST /api/transcribe\<close>

text \<open>
  \<^verbatim>\<open>
  app.post('/api/transcribe', upload.single('video'), async (req, res) => {
      let videoPath, audioPath;
      try {
          if (!req.file) {
              return res.status(400).json({ error: 'No video file uploaded' });
          }
          videoPath = req.file.path;
          audioPath = videoPath + '.wav';
          console.log('Processing video:', req.file.originalname);
          console.log('Extracting audio...');
          await extractAudio(videoPath, audioPath);
          console.log('Transcribing...');
          let transcript;
          try {
              transcript = await transcribeWithFasterWhisper(audioPath);
          } catch (error) {
              console.log('Faster-whisper not available, falling back to standard whisper');
              transcript = await transcribeWithWhisper(audioPath);
          }
          console.log('Transcription complete');
          res.json({ transcript });
      } catch (error) {
          console.error('Transcription error:', error);
          res.status(500).json({ error: error.message || 'Transcription failed' });
      } finally {
          if (videoPath && fs.existsSync(videoPath)) { fs.unlinkSync(videoPath); }
          if (audioPath && fs.existsSync(audioPath)) { fs.unlinkSync(audioPath); }
      }
  });
  \<close>
  The response is sent before the \<open>finally\<close> block runs. An error that the \<open>finally\<close>
  block raises is caught by nothing: the promise of the handler rejects with it.
\<close>

datatype body = Transcript string | ErrorBody string | ErrorPage string

record response =
  status :: nat
  body :: body

record req_file =
  originalname :: string
  path :: string

record outcome =
  sent :: response
  uncaught :: "js_error option"
  final :: state

text \<open>The inner \<open>try\<close>: the primary strategy, and the fallback in its \<open>catch\<close>.\<close>

definition transcribe_stage :: "exec_oracle \<Rightarrow> string \<Rightarrow> state \<Rightarrow> (js_error + string) \<times> state" where
  "transcribe_stage exec audioPath st =
     (case transcribeWithFasterWhisper exec audioPath st of
        (Inr transcript, st1) \<Rightarrow> (Inr transcript, st1)
      | (Inl error, st1) \<Rightarrow>
          transcribeWithWhisper exec audioPath
            (console_log [''Faster-whisper not available, falling back to standard whisper''] st1))"

text \<open>The outer \<open>try\<close> from the assignment of the two paths on.\<close>

definition run_pipeline :: "exec_oracle \<Rightarrow> req_file \<Rightarrow> string \<Rightarrow> string \<Rightarrow> state \<Rightarrow> (js_error + string) \<times> state" where
  "run_pipeline exec file videoPath audioPath st =
     (let st1 = console_log [''Processing video:'', originalname file] st;
          st2 = console_log [''Extracting audio...''] st1
      in case extractAudio exec videoPath audioPath st2 of
           (Inl error, st3) \<Rightarrow> (Inl error, st3)
         | (Inr u, st3) \<Rightarrow>
             (let st4 = console_log [''Transcribing...''] st3 in
              case transcribe_stage exec audioPath st4 of
                (Inl error, st5) \<Rightarrow> (Inl error, st5)
              | (Inr transcript, st5) \<Rightarrow>
                  (Inr transcript, console_log [''Transcription complete''] st5)))"

text \<open>The \<open>finally\<close> block. A variable is \<open>undefined\<close> (\<open>None\<close>) until it is assigned; the
  empty string is falsy as well.\<close>

definition cleanup_one :: "string option \<Rightarrow> state \<Rightarrow> (js_error + unit) \<times> state" where
  "cleanup_one p st =
     (case p of
        None \<Rightarrow> (Inr (), st)
      | Some q \<Rightarrow> if q \<noteq> [] \<and> existsSync st q then unlinkSync q st else (Inr (), st))"

definition cleanup :: "string option \<Rightarrow> string option \<Rightarrow> state \<Rightarrow> js_error option \<times> state" where
  "cleanup videoPath audioPath st =
     (case cleanup_one videoPath st of
        (Inl error, st1) \<Rightarrow> (Some error, st1)
      | (Inr u, st1) \<Rightarrow>
          (case cleanup_one audioPath st1 of
             (Inl error, st2) \<Rightarrow> (Some error, st2)
           | (Inr u, st2) \<Rightarrow> (None, st2)))"

definition finish :: "response \<Rightarrow> string option \<Rightarrow> string option \<Rightarrow> state \<Rightarrow> outcome" where
  "finish r videoPath audioPath st =
     (case cleanup videoPath audioPath st of
        (e, st1) \<Rightarrow> \<lparr>sent = r, uncaught = e, final = st1\<rparr>)"

definition error_response :: "js_error \<Rightarrow> response" where
  "error_response error =
     \<lparr>status = 500,
      body = ErrorBody (if message error = [] then ''Transcription failed'' else message error)\<rparr>"

definition handler :: "exec_oracle \<Rightarrow> req_file option \<Rightarrow> state \<Rightarrow> outcome" where
  "handler exec file st =
     (case file of
        None \<Rightarrow> finish \<lparr>status = 400, body = ErrorBody ''No video file uploaded''\<rparr> None None st
      | Some f \<Rightarrow>
          (let videoPath = path f;
               audioPath = videoPath @ ''.wav''
           in case run_pipeline exec f videoPath audioPath st of
                (Inr transcript, st1) \<Rightarrow>
                  finish \<lparr>status = 200, body = Transcript transcript\<rparr>
                    (Some videoPath) (Some audioPath) st1
              | (Inl error, st1) \<Rightarrow>
                  finish (error_response error) (Some videoPath) (Some audioPath)
                    (console_error [''Transcription error:'', message error] st1)))"

subsection \<open>The upload middleware in front of the handler\<close>

text \<open>
  \<^verbatim>\<open>
  const upload = multer({
      dest: 'uploads/',
      limits: { fileSize: 500 * 1024 * 1024 },
      fileFilter: ...
  });
  app.post('/api/transcribe', upload.single('video'), async (req, res) => ...
  \<close>
  The middleware asks the filter before it stores anything. A file the filter refuses, and
  a file over the size limit, end the request with the error passed to the framework's
  error handler (status 500, the error's page): the handler is not called and no file
  stays. A file it accepts is stored under \<open>uploads/\<close> with a generated name, which the
  request carries here, and the handler is called with it. A request without a file
  reaches the handler with \<open>req.file\<close> undefined.
\<close>

record upload =
  upload_name :: string
  upload_size :: nat
  upload_content :: string

record request =
  video :: "upload option"
  generated :: string

definition fileSize_limit :: nat where
  "fileSize_limit = 500 * 1024 * 1024"

text \<open>\<open>path.join('uploads/', filename)\<close>, where the middleware stores the file.\<close>

definition upload_path :: "string \<Rightarrow> string" where
  "upload_path filename = ''uploads/'' @ filename"

definition refused :: "string \<Rightarrow> state \<Rightarrow> outcome" where
  "refused msg st = \<lparr>sent = \<lparr>status = 500, body = ErrorPage msg\<rparr>, uncaught = None, final = st\<rparr>"

definition transcribe_endpoint :: "exec_oracle \<Rightarrow> request \<Rightarrow> state \<Rightarrow> outcome" where
  "transcribe_endpoint exec req st =
     (case video req of
        None \<Rightarrow> handler exec None st
      | Some u \<Rightarrow>
          if fileFilter (upload_name u) then
            (if fileSize_limit < upload_size u then refused ''File too large'' st
             else
               (let p = upload_path (generated req) in
                handler exec (Some \<lparr>originalname = upload_name u, path = p\<rparr>)
                  (put_file p (upload_content u) (emit (Stored p) st))))
          else refused ''Invalid file type. Only video files are allowed.'' st)"

subsection \<open>Notions for stating the properties\<close>

text \<open>The commands among the effects of a trace, in the order of their execution.\<close>

fun commands :: "event list \<Rightarrow> string list" where
  "commands [] = []"
| "commands (Exec c # es) = c # commands es"
| "commands (e # es) = commands es"

text \<open>The commands an attempt of the primary strategy executes from a state: none when
  writing its script raises, the interpreter otherwise.\<close>

definition primary_commands :: "state \<Rightarrow> string list" where
  "primary_commands st =
     (case faults (fs st) OpWrite scriptPath of
        Some m \<Rightarrow> []
      | None \<Rightarrow> [''python3 '' @ scriptPath])"

text \<open>A string without white space at either end.\<close>

definition no_outer_ws :: "string \<Rightarrow> bool" where
  "no_outer_ws s = (case s of [] \<Rightarrow> True | c # cs \<Rightarrow> \<not> is_ws c \<and> \<not> is_ws (last s))"

text \<open>An upload the middleware accepts: the filter lets its name pass and its size is
  within the limit.\<close>

definition accepted :: "request \<Rightarrow> bool" where
  "accepted req =
     (case video req of
        None \<Rightarrow> False
      | Some u \<Rightarrow> fileFilter (upload_name u) \<and> upload_size u \<le> fileSize_limit)"

text \<open>The command line of the decoder as a list of arguments: the paths in double quotes,
  and between them the options that select the output.\<close>

definition quoted :: "string \<Rightarrow> string" where
  "quoted p = CHR 0x22 # p @ [CHR 0x22]"

definition unwords :: "string list \<Rightarrow> string" where
  "unwords ws = (case ws of [] \<Rightarrow> [] | w # r \<Rightarrow> w @ concat (map (\<lambda>x. CHR '' '' # x) r))"

definition ffmpeg_options :: "string list" where
  "ffmpeg_options = [''-vn'', ''-acodec'', ''pcm_s16le'', ''-ar'', ''16000'', ''-ac'', ''1'']"

definition ffmpeg_arguments :: "string \<Rightarrow> string \<Rightarrow> string list" where
  "ffmpeg_arguments videoPath audioPath =
     [''ffmpeg'', ''-i'', quoted videoPath] @ ffmpeg_options @ [quoted audioPath]"

text \<open>What \<open>console.error\<close> printed, and the paths \<open>fs.writeFileSync\<close> was called on.\<close>

fun console_errors :: "event list \<Rightarrow> string list list" where
  "console_errors [] = []"
| "console_errors (Console_error args # es) = args # console_errors es"
| "console_errors (e # es) = console_errors es"

fun written :: "event list \<Rightarrow> string list" where
  "written [] = []"
| "written (WriteFile p # es) = p # written es"
| "written (e # es) = written es"

text \<open>A command line cut at its spaces, and an argument without its double quotes.\<close>

fun split_spaces :: "string \<Rightarrow> string \<Rightarrow> string list" where
  "split_spaces acc [] = [rev acc]"
| "split_spaces acc (c # cs) =
     (if c = CHR '' '' then rev acc # split_spaces [] cs else split_spaces (c # acc) cs)"

definition unquote :: "string \<Rightarrow> string" where
  "unquote s = (case s of [] \<Rightarrow> [] | c # r \<Rightarrow> if c = CHR 0x22 then butlast r else s)"

text \<open>The file system refuses the deletion the cleanup would make: the file exists and
  \<open>fs.unlinkSync\<close> raises on it.\<close>

definition refuses :: "state \<Rightarrow> string \<Rightarrow> bool" where
  "refuses st p =
     (existsSync st p \<and> (case faults (fs st) OpUnlink p of None \<Rightarrow> False | Some m \<Rightarrow> True))"

text \<open>One step of the cleanup when it does not raise: the file is deleted if it exists.\<close>

definition delete_step :: "string \<Rightarrow> state \<Rightarrow> state" where
  "delete_step p st = (if existsSync st p then remove_file p (emit (Unlink p) st) else st)"

subsection \<open>Scenarios\<close>

text \<open>An empty file system without faults, and external tools that succeed or fail as
  asked: the decoder writes the audio file of the upload \<open>uploads/3f9a\<close>, the primary
  recogniser prints its text, the fallback recogniser writes its text file.\<close>

definition empty_fs :: filesystem where
  "empty_fs = \<lparr>files = Map.empty, faults = (\<lambda>op p. None)\<rparr>"

definition st0 :: state where
  "st0 = \<lparr>fs = empty_fs, trace = []\<rparr>"

definition add_file :: "string \<Rightarrow> string \<Rightarrow> filesystem \<Rightarrow> filesystem" where
  "add_file p c w = w\<lparr>files := (files w)(p \<mapsto> c)\<rparr>"

definition scenario_exec :: "bool \<Rightarrow> bool \<Rightarrow> bool \<Rightarrow> exec_oracle" where
  "scenario_exec ffmpeg_ok python_ok whisper_ok cmd w =
     (if starts_with ''ffmpeg '' cmd then
        (if ffmpeg_ok then (ExecOk [] ''size=64kB'', add_file ''uploads/3f9a.wav'' ''RIFF'' w)
         else (ExecFail ''Command failed: ffmpeg'' ''Invalid data found when processing input'', w))
      else if starts_with ''python3 '' cmd then
        (if python_ok then (ExecOk ('' hello world'' @ [CHR 0x0A]) [], w)
         else (ExecFail ''Command failed: python3'' ''No module named faster_whisper'', w))
      else if starts_with ''whisper '' cmd then
        (if whisper_ok then
           (ExecOk [] [], add_file ''/tmp/3f9a.txt'' (''fallback text'' @ [CHR 0x0A]) w)
         else (ExecFail ''Command failed: whisper'' ''whisper: not found'', w))
      else (ExecFail ''Command failed'' ''not found'', w))"

definition sample_file :: req_file where
  "sample_file = \<lparr>originalname = ''sample.mp4'', path = ''uploads/3f9a''\<rparr>"

definition sample_request :: request where
  "sample_request =
     \<lparr>video = Some \<lparr>upload_name = ''sample.mp4'', upload_size = 2097152,
                    upload_content = ''ftypisom''\<rparr>,
      generated = ''3f9a''\<rparr>"

text \<open>A file system where one call of the \<open>fs\<close> module on one path raises.\<close>

definition with_fault :: "fsop \<Rightarrow> string \<Rightarrow> string \<Rightarrow> filesystem \<Rightarrow> filesystem" where
  "with_fault op p m w =
     w\<lparr>faults := (\<lambda>k q. if k = op \<and> q = p then Some m else faults w k q)\<rparr>"

definition undeletable :: "string \<Rightarrow> state" where
  "undeletable p =
     \<lparr>fs = with_fault OpUnlink p ''EPERM: operation not permitted, unlink'' empty_fs, trace = []\<rparr>"

text \<open>A second upload, and an upload whose extension only contains an allowed one.\<close>

definition second_request :: request where
  "second_request =
     \<lparr>video = Some \<lparr>upload_name = ''clip.mov'', upload_size = 1048576,
                    upload_content = ''ftypqt''\<rparr>,
      generated = ''b07c''\<rparr>"

definition mp4x_request :: request where
  "mp4x_request =
     \<lparr>video = Some \<lparr>upload_name = ''clip.mp4x'', upload_size = 2097152,
                    upload_content = ''ftypisom''\<rparr>,
      generated = ''3f9a''\<rparr>"

text \<open>A decoder that does not replace an existing output file unless \<open>-y\<close> is among its
  arguments, which is the rule of ffmpeg (without \<open>-y\<close> it asks for a confirmation, and
  gives up where it cannot ask); here it leaves the file and fails. Its output file is its
  last argument.\<close>

definition careful_decoder :: exec_oracle where
  "careful_decoder cmd w =
     (let args = split_spaces [] cmd; out = unquote (last args) in
      if list_ex (\<lambda>x. x = ''-y'') args then (ExecOk [] [], add_file out ''RIFF'' w)
      else (case files w out of
              None \<Rightarrow> (ExecOk [] [], add_file out ''RIFF'' w)
            | Some old \<Rightarrow>
                (ExecFail ''Command failed: ffmpeg'' ''File already exists. Exiting.'', w)))"

section \<open>Basic facts\<close>

lemmas model_defs = transcribe_endpoint_def handler_def finish_def cleanup_def cleanup_one_def
  run_pipeline_def transcribe_stage_def transcribeWithFasterWhisper_def transcribeWithWhisper_def
  extractAudio_def execPromise_def unlinkSync_def readFileSync_def writeFileSync_def
  existsSync_def put_file_def remove_file_def emit_def console_log_def console_error_def
  faster_catch_def whisper_catch_def new_Error_def error_response_def refused_def
  fileFilter_def lowered_ext_def extname_def last_segment_def is_slash_def is_dot_def
  toLowerCase_def toLowerCase_char_def slice1_def allowedTypes_def fileSize_limit_def
  upload_path_def
  ffmpeg_command_def whisper_command_def scriptPath_def pythonScript_def script_lines_def
  transcriptPath_of_def basename_def trim_def is_ws_def show_prop_def Let_def

lemmas scenario_defs = scenario_exec_def sample_request_def sample_file_def st0_def
  empty_fs_def add_file_def with_fault_def undeletable_def

subsection \<open>The state operations\<close>

lemma commands_append [simp]: "commands (xs @ ys) = commands xs @ commands ys"
  by (induction xs rule: commands.induct) simp_all

lemma emit_simps [simp]:
  "trace (emit e st) = trace st @ [e]" "fs (emit e st) = fs st"
  by (simp_all add: emit_def)

lemma console_simps [simp]:
  "trace (console_log args st) = trace st @ [Console_log args]"
  "fs (console_log args st) = fs st"
  "trace (console_error args st) = trace st @ [Console_error args]"
  "fs (console_error args st) = fs st"
  by (simp_all add: console_log_def console_error_def)

lemma put_remove_simps [simp]:
  "trace (put_file p c st) = trace st"
  "files (fs (put_file p c st)) = (files (fs st))(p \<mapsto> c)"
  "faults (fs (put_file p c st)) = faults (fs st)"
  "trace (remove_file p st) = trace st"
  "files (fs (remove_file p st)) = (files (fs st))(p := None)"
  "faults (fs (remove_file p st)) = faults (fs st)"
  by (simp_all add: put_file_def remove_file_def)

lemma execPromise_trace:
  "execPromise exec cmd st = (r, st') \<Longrightarrow> trace st' = trace st @ [Exec cmd]"
  by (auto simp: execPromise_def Let_def split: prod.splits exec_result.splits)

lemma unlinkSync_trace:
  "unlinkSync p st = (r, st') \<Longrightarrow> trace st' = trace st @ [Unlink p]"
  by (auto simp: unlinkSync_def Let_def split: option.splits)

lemma readFileSync_trace:
  "readFileSync p st = (r, st') \<Longrightarrow> trace st' = trace st @ [ReadFile p]"
  by (auto simp: readFileSync_def Let_def split: option.splits)

lemma primary_commands_console [simp]:
  "primary_commands (console_log args st) = primary_commands st"
  by (simp add: primary_commands_def)

subsection \<open>The commands each stage executes\<close>

lemma extractAudio_commands:
  "extractAudio exec v a st = (r, st') \<Longrightarrow>
     commands (trace st') = commands (trace st) @ [ffmpeg_command v a]"
  by (auto simp: extractAudio_def split: prod.splits sum.splits dest!: execPromise_trace)

lemma faster_commands:
  "transcribeWithFasterWhisper exec a st = (r, st') \<Longrightarrow>
     commands (trace st') = commands (trace st) @ primary_commands st"
  by (auto simp: transcribeWithFasterWhisper_def faster_catch_def primary_commands_def Let_def
             writeFileSync_def
           split: prod.splits sum.splits option.splits
           dest!: execPromise_trace unlinkSync_trace)

lemma whisper_commands:
  "transcribeWithWhisper exec a st = (r, st') \<Longrightarrow>
     commands (trace st') = commands (trace st) @ [whisper_command a]"
  by (auto simp: transcribeWithWhisper_def whisper_catch_def Let_def
           split: prod.splits sum.splits if_splits
           dest!: execPromise_trace readFileSync_trace unlinkSync_trace)

lemma cleanup_one_commands:
  "cleanup_one p st = (r, st') \<Longrightarrow> commands (trace st') = commands (trace st)"
  by (auto simp: cleanup_one_def split: option.splits if_splits dest!: unlinkSync_trace)

lemma cleanup_commands:
  "cleanup v a st = (r, st') \<Longrightarrow> commands (trace st') = commands (trace st)"
  by (auto simp: cleanup_def split: prod.splits sum.splits dest!: cleanup_one_commands)

lemma cleanup_commands_snd [simp]:
  "commands (trace (snd (cleanup v a st))) = commands (trace st)"
  by (cases "cleanup v a st") (auto dest: cleanup_commands)

lemma finish_simps [simp]:
  "sent (finish r v a st) = r"
  "uncaught (finish r v a st) = fst (cleanup v a st)"
  "final (finish r v a st) = snd (cleanup v a st)"
  by (simp_all add: finish_def split: prod.splits)

lemma handler_Some:
  "handler exec (Some f) st =
     (case run_pipeline exec f (path f) (path f @ ''.wav'') st of
        (Inr t, st1) \<Rightarrow>
          finish \<lparr>status = 200, body = Transcript t\<rparr> (Some (path f)) (Some (path f @ ''.wav'')) st1
      | (Inl e, st1) \<Rightarrow>
          finish (error_response e) (Some (path f)) (Some (path f @ ''.wav''))
            (console_error [''Transcription error:'', message e] st1))"
  by (simp add: handler_def Let_def)

lemma whisper_not_ffmpeg: "whisper_command a \<noteq> ffmpeg_command v b"
  by (simp add: whisper_command_def ffmpeg_command_def)

lemma whisper_not_python: "whisper_command a \<noteq> ''python3 '' @ scriptPath"
  by (simp add: whisper_command_def)

lemma count_primary_commands: "count_list (primary_commands st) (whisper_command a) = 0"
  using whisper_not_python [of a]
  by (auto simp: primary_commands_def split: option.splits)

subsection \<open>Trimming\<close>

lemma dropWhile_rev_last:
  assumes "dropWhile P (rev t) \<noteq> []"
  shows "last (dropWhile P (rev t)) = hd t"
proof -
  obtain ys where "rev t = ys @ dropWhile P (rev t)"
    by (metis takeWhile_dropWhile_id)
  with assms have "last (rev t) = last (dropWhile P (rev t))"
    by (metis last_appendR)
  moreover from assms have "t \<noteq> []" by auto
  ultimately show ?thesis by (simp add: last_rev)
qed

lemma trim_no_outer_ws: "no_outer_ws (trim s)"
proof (cases "trim s")
  case Nil
  then show ?thesis by (simp add: no_outer_ws_def)
next
  case (Cons c cs)
  let ?t = "dropWhile is_ws s"
  let ?u = "dropWhile is_ws (rev ?t)"
  have u: "?u \<noteq> []" using Cons by (auto simp: trim_def)
  then have t: "?t \<noteq> []" by (cases "?t") simp_all
  have "hd (trim s) = last ?u" using u by (simp add: trim_def hd_rev)
  also have "\<dots> = hd ?t" using u by (rule dropWhile_rev_last)
  finally have h: "\<not> is_ws (hd (trim s))" using t hd_dropWhile[of is_ws s] by simp
  have "last (trim s) = hd ?u" using u by (simp add: trim_def last_rev)
  then have l: "\<not> is_ws (last (trim s))" using u hd_dropWhile[of is_ws "rev ?t"] by simp
  from h l Cons show ?thesis by (simp add: no_outer_ws_def)
qed

lemma faster_trim:
  "transcribeWithFasterWhisper exec a st = (Inr t, st') \<Longrightarrow> \<exists>s. t = trim s"
  by (auto simp: transcribeWithFasterWhisper_def faster_catch_def Let_def
           split: prod.splits sum.splits)

lemma whisper_trim:
  "transcribeWithWhisper exec a st = (Inr t, st') \<Longrightarrow> \<exists>s. t = trim s"
  by (auto simp: transcribeWithWhisper_def whisper_catch_def Let_def
           split: prod.splits sum.splits if_splits)

lemma stage_trim: "transcribe_stage exec a st = (Inr t, st') \<Longrightarrow> \<exists>s. t = trim s"
  by (auto simp: transcribe_stage_def split: prod.splits sum.splits
           dest: faster_trim whisper_trim)

lemma pipeline_trim: "run_pipeline exec f v a st = (Inr t, st') \<Longrightarrow> \<exists>s. t = trim s"
  by (auto simp: run_pipeline_def Let_def split: prod.splits sum.splits dest: stage_trim)

lemma handler_trim:
  "body (sent (handler exec file st)) = Transcript t \<Longrightarrow> \<exists>s. t = trim s"
  by (auto simp: handler_def finish_def error_response_def Let_def
           split: option.splits prod.splits sum.splits dest: pipeline_trim)

subsection \<open>Extraction\<close>

lemma extractAudio_fail:
  assumes "exec (ffmpeg_command v a) (fs st) = (ExecFail msg err, w)"
  shows "extractAudio exec v a st =
           (Inl (new_Error ''Failed to extract audio from video''),
            console_error [''FFmpeg error:'', err]
              ((emit (Exec (ffmpeg_command v a)) st)\<lparr>fs := w\<rparr>))"
  using assms by (simp add: extractAudio_def execPromise_def Let_def show_prop_def)

lemma extractAudio_fs:
  "fs (snd (extractAudio exec v a st)) = snd (exec (ffmpeg_command v a) (fs st))"
  by (simp add: extractAudio_def execPromise_def Let_def split: prod.splits exec_result.splits)

lemma extractAudio_result:
  "fst (extractAudio exec v a st) =
     (case fst (exec (ffmpeg_command v a) (fs st)) of
        ExecOk out err \<Rightarrow> Inr ()
      | ExecFail msg err \<Rightarrow> Inl (new_Error ''Failed to extract audio from video''))"
  by (simp add: extractAudio_def execPromise_def Let_def split: prod.splits exec_result.splits)

lemma ffmpeg_command_arguments: "ffmpeg_command v a = unwords (ffmpeg_arguments v a)"
  by (simp add: ffmpeg_command_def unwords_def ffmpeg_arguments_def ffmpeg_options_def quoted_def)

lemma error_response_extract [simp]:
  "error_response (new_Error ''Failed to extract audio from video'') =
     \<lparr>status = 500, body = ErrorBody ''Failed to extract audio from video''\<rparr>"
  by (simp add: error_response_def new_Error_def)

subsection \<open>The cleanup\<close>

lemma handler_ends_with_cleanup:
  "\<exists>r st1. handler exec (Some f) st = finish r (Some (path f)) (Some (path f @ ''.wav'')) st1"
  by (auto simp: handler_Some split: prod.splits sum.splits)

lemma cleanup_one_Some:
  "p \<noteq> [] \<Longrightarrow>
   cleanup_one (Some p) st =
     (if refuses st p then (Inl (new_Error (the (faults (fs st) OpUnlink p))), emit (Unlink p) st)
      else (Inr (), delete_step p st))"
  by (auto simp: cleanup_one_def unlinkSync_def existsSync_def refuses_def delete_step_def Let_def
           split: option.splits)

lemma delete_step_simps [simp]:
  "faults (fs (delete_step p st)) = faults (fs st)"
  "files (fs (delete_step p st)) = (files (fs st))(p := None)"
  "trace (delete_step p st) = trace st @ map Unlink (filter (existsSync st) [p])"
  by (auto simp: delete_step_def existsSync_def fun_eq_iff split: option.splits)

lemma existsSync_delete_step [simp]:
  "existsSync (delete_step p st) q = (q \<noteq> p \<and> existsSync st q)"
  by (auto simp: existsSync_def split: option.splits)

lemma existsSync_emit [simp]: "existsSync (emit e st) q = existsSync st q"
  by (simp add: existsSync_def)

lemma refuses_delete_step [simp]:
  "refuses (delete_step p st) q = (q \<noteq> p \<and> refuses st q)"
  by (auto simp: refuses_def)

lemma cleanup_Some:
  "v \<noteq> [] \<Longrightarrow> a \<noteq> [] \<Longrightarrow> a \<noteq> v \<Longrightarrow>
   cleanup (Some v) (Some a) st =
     (if refuses st v then (Some (new_Error (the (faults (fs st) OpUnlink v))), emit (Unlink v) st)
      else if refuses st a
        then (Some (new_Error (the (faults (fs st) OpUnlink a))),
              emit (Unlink a) (delete_step v st))
      else (None, delete_step a (delete_step v st)))"
  by (simp add: cleanup_def cleanup_one_Some)

lemma delete_step_absent: "\<not> existsSync st p \<Longrightarrow> delete_step p st = st"
  by (simp add: delete_step_def)

lemma refuses_fault:
  "refuses st p \<Longrightarrow> faults (fs st) OpUnlink p = Some (the (faults (fs st) OpUnlink p))"
  by (auto simp: refuses_def split: option.splits)

lemma not_refuses_if_deletable: "faults (fs st) OpUnlink p = None \<Longrightarrow> \<not> refuses st p"
  by (simp add: refuses_def)

lemma wav_differs [simp]: "p @ ''.wav'' \<noteq> p"
  by simp

lemma cleanup_faults [simp]:
  "v \<noteq> [] \<Longrightarrow> faults (fs (snd (cleanup (Some v) (Some (v @ ''.wav'')) st))) = faults (fs st)"
  by (simp add: cleanup_Some)

lemma cleanup_video_gone:
  assumes "v \<noteq> []" "faults (fs st) OpUnlink v = None"
  shows "files (fs (snd (cleanup (Some v) (Some (v @ ''.wav'')) st))) v = None"
  using assms by (simp add: cleanup_Some not_refuses_if_deletable)

lemma cleanup_both_gone:
  assumes "v \<noteq> []"
      and "faults (fs st) OpUnlink v = None" "faults (fs st) OpUnlink (v @ ''.wav'') = None"
  shows "fst (cleanup (Some v) (Some (v @ ''.wav'')) st) = None"
    and "files (fs (snd (cleanup (Some v) (Some (v @ ''.wav'')) st))) =
           (files (fs st))(v := None, v @ ''.wav'' := None)"
  using assms by (simp_all add: cleanup_Some not_refuses_if_deletable)

subsection \<open>The middleware\<close>

lemma endpoint_accepted:
  assumes "accepted req" "video req = Some u"
  shows "transcribe_endpoint exec req st =
     handler exec (Some \<lparr>originalname = upload_name u, path = upload_path (generated req)\<rparr>)
       (put_file (upload_path (generated req)) (upload_content u)
          (emit (Stored (upload_path (generated req))) st))"
  using assms by (simp add: accepted_def transcribe_endpoint_def Let_def)

lemma upload_path_nonempty [simp]: "upload_path n \<noteq> []"
  by (simp add: upload_path_def)

lemma put_file_emit_fs [simp]: "fs (put_file p c (emit e st)) = fs (put_file p c st)"
  by (simp add: put_file_def emit_def)

subsection \<open>The filter\<close>

lemma starts_with_iff: "starts_with a s \<longleftrightarrow> (\<exists>t. s = a @ t)"
  by (induction a s rule: starts_with.induct) auto

lemma regex_alt_test_iff:
  "regex_alt_test alts s \<longleftrightarrow> (\<exists>a \<in> set alts. \<exists>pre post. s = pre @ a @ post)"
proof (induction s)
  case Nil
  show ?case by (auto simp: list_ex_iff starts_with_iff)
next
  case (Cons c cs)
  show ?case
  proof
    assume "regex_alt_test alts (c # cs)"
    then consider "list_ex (\<lambda>a. starts_with a (c # cs)) alts" | "regex_alt_test alts cs"
      by auto
    then show "\<exists>a \<in> set alts. \<exists>pre post. c # cs = pre @ a @ post"
    proof cases
      case 1
      then obtain a t where "a \<in> set alts" "c # cs = a @ t"
        by (auto simp: list_ex_iff starts_with_iff)
      then have "c # cs = [] @ a @ t" by simp
      with \<open>a \<in> set alts\<close> show ?thesis by blast
    next
      case 2
      with Cons obtain a pre post where "a \<in> set alts" "cs = pre @ a @ post" by blast
      then have "c # cs = (c # pre) @ a @ post" by simp
      with \<open>a \<in> set alts\<close> show ?thesis by blast
    qed
  next
    assume "\<exists>a \<in> set alts. \<exists>pre post. c # cs = pre @ a @ post"
    then obtain a pre post where a: "a \<in> set alts" and e: "c # cs = pre @ a @ post" by blast
    show "regex_alt_test alts (c # cs)"
    proof (cases pre)
      case Nil
      with e have "starts_with a (c # cs)" by (auto simp: starts_with_iff)
      with a show ?thesis by (auto simp: list_ex_iff)
    next
      case (Cons d pre')
      with e have "cs = pre' @ a @ post" by simp
      with a Cons.IH show ?thesis by auto
    qed
  qed
qed

text \<open>The filter accepts exactly the names whose lowercased extension contains one of the
  seven allowed names; a listed extension passes, a missing one does not.\<close>

lemma filter_accepts_containing_extensions:
  "fileFilter n \<longleftrightarrow> (\<exists>a \<in> set allowedTypes. \<exists>pre post. lowered_ext n = pre @ a @ post)"
  by (simp add: fileFilter_def regex_alt_test_iff)

lemma listed_extension_accepted:
  "lowered_ext n \<in> set allowedTypes \<Longrightarrow> fileFilter n"
  unfolding fileFilter_def regex_alt_test_iff
  by (metis append_Nil append_Nil2)

lemma no_extension_refused: "lowered_ext n = [] \<Longrightarrow> \<not> fileFilter n"
  by (simp add: fileFilter_def allowedTypes_def)

subsection \<open>Requests that do not reach the pipeline, and the primary strategy alone\<close>

text \<open>A file the filter refuses ends the request before the handler; a request without
  a file is answered by the handler with status 400. Nothing is executed in either
  case.\<close>

lemma refused_upload_not_processed:
  assumes "video req = Some u" and "\<not> fileFilter (upload_name u)"
  shows "transcribe_endpoint exec req st =
           \<lparr>sent = \<lparr>status = 500,
                     body = ErrorPage ''Invalid file type. Only video files are allowed.''\<rparr>,
            uncaught = None, final = st\<rparr>"
  using assms by (simp add: transcribe_endpoint_def refused_def)

lemma missing_file_answer:
  "video req = None \<Longrightarrow>
     transcribe_endpoint exec req st =
       \<lparr>sent = \<lparr>status = 400, body = ErrorBody ''No video file uploaded''\<rparr>,
        uncaught = None, final = st\<rparr>"
  by (simp add: transcribe_endpoint_def handler_def finish_def cleanup_def cleanup_one_def)

text \<open>When the primary strategy succeeds the fallback is not run, and the response is the
  primary's text.\<close>

lemma primary_success_skips_fallback:
  assumes ext: "extractAudio exec (path f) (path f @ ''.wav'')
                  (console_log [''Extracting audio...'']
                    (console_log [''Processing video:'', originalname f] st)) = (Inr u, st3)"
      and prim: "transcribeWithFasterWhisper exec (path f @ ''.wav'')
                  (console_log [''Transcribing...''] st3) = (Inr t, st5)"
  shows "commands (trace (final (handler exec (Some f) st))) =
           commands (trace st) @
             ffmpeg_command (path f) (path f @ ''.wav'') # primary_commands st3
       \<and> sent (handler exec (Some f) st) = \<lparr>status = 200, body = Transcript t\<rparr>"
proof -
  let ?a = "path f @ ''.wav''"
  have stage: "transcribe_stage exec ?a (console_log [''Transcribing...''] st3) = (Inr t, st5)"
    using prim by (simp add: transcribe_stage_def)
  have c3: "commands (trace st3) = commands (trace st) @ [ffmpeg_command (path f) ?a]"
    using extractAudio_commands [OF ext] by simp
  have c5: "commands (trace st5) = commands (trace st3) @ primary_commands st3"
    using faster_commands [OF prim] by simp
  have pipe: "run_pipeline exec f (path f) ?a st =
      (Inr t, console_log [''Transcription complete''] st5)"
    using ext stage by (simp add: run_pipeline_def Let_def)
  show ?thesis using pipe c3 c5 by (simp add: handler_Some)
qed

text \<open>Every attempt of the primary strategy writes the same path, whatever the audio.\<close>

lemma primary_writes_scriptPath:
  "transcribeWithFasterWhisper exec a st = (r, st') \<Longrightarrow>
     \<exists>es. trace st' = trace st @ WriteFile ''/tmp/transcribe.py'' # es"
  by (auto simp: transcribeWithFasterWhisper_def faster_catch_def writeFileSync_def Let_def
             scriptPath_def
           split: prod.splits sum.splits option.splits
           dest!: execPromise_trace unlinkSync_trace)

section \<open>The properties of the specification\<close>

subsection \<open>Removal of the temporary files\<close>

text \<open>
  C1, as the code has it. For every upload the endpoint accepts, whatever the external
  tools do (success, extraction failure, transcription failure), when the handler has
  finished the stored video no longer exists if the file system does not refuse its
  deletion, and neither the video nor the extracted audio exists, and the cleanup has
  raised nothing, if the file system refuses neither deletion. (What the file system
  refuses is the same before and after the cleanup, which changes no fault.)
\<close>

theorem uploads_removed_on_every_exit_path:
  assumes acc: "accepted req"
  shows "(faults (fs (final (transcribe_endpoint exec req st))) OpUnlink
            (upload_path (generated req)) = None \<longrightarrow>
          files (fs (final (transcribe_endpoint exec req st))) (upload_path (generated req)) = None)
       \<and> (faults (fs (final (transcribe_endpoint exec req st))) OpUnlink
            (upload_path (generated req)) = None \<and>
          faults (fs (final (transcribe_endpoint exec req st))) OpUnlink
            (upload_path (generated req) @ ''.wav'') = None \<longrightarrow>
          files (fs (final (transcribe_endpoint exec req st))) (upload_path (generated req)) = None
          \<and> files (fs (final (transcribe_endpoint exec req st)))
               (upload_path (generated req) @ ''.wav'') = None
          \<and> uncaught (transcribe_endpoint exec req st) = None)"
proof -
  from acc obtain u where u: "video req = Some u"
    by (auto simp: accepted_def split: option.splits)
  let ?p = "upload_path (generated req)"
  let ?f = "\<lparr>originalname = upload_name u, path = ?p\<rparr>"
  let ?st = "put_file ?p (upload_content u) (emit (Stored ?p) st)"
  obtain r st1 where
    "handler exec (Some ?f) ?st = finish r (Some (path ?f)) (Some (path ?f @ ''.wav'')) st1"
    using handler_ends_with_cleanup [of exec ?f ?st] by blast
  then have h: "transcribe_endpoint exec req st = finish r (Some ?p) (Some (?p @ ''.wav'')) st1"
    using endpoint_accepted [OF acc u, of exec st] by simp
  have fl: "faults (fs (final (transcribe_endpoint exec req st))) = faults (fs st1)"
    using h by simp
  have v: "files (fs (final (transcribe_endpoint exec req st))) ?p = None"
    if "faults (fs st1) OpUnlink ?p = None"
    using h cleanup_video_gone [OF _ that] by simp
  have b: "files (fs (final (transcribe_endpoint exec req st))) (?p @ ''.wav'') = None
           \<and> uncaught (transcribe_endpoint exec req st) = None"
    if "faults (fs st1) OpUnlink ?p = None" "faults (fs st1) OpUnlink (?p @ ''.wav'') = None"
    using h cleanup_both_gone [OF _ that] by simp
  from v b show ?thesis unfolding fl by blast
qed

text \<open>The exit path of a transcription failure: the decoder succeeds and both
  recognisers fail.\<close>

theorem uploads_removed_on_every_exit_path_witness:
  "accepted sample_request
   \<and> faults (fs (final (transcribe_endpoint (scenario_exec True False False) sample_request st0)))
       OpUnlink (upload_path (generated sample_request)) = None
   \<and> faults (fs (final (transcribe_endpoint (scenario_exec True False False) sample_request st0)))
       OpUnlink (upload_path (generated sample_request) @ ''.wav'') = None
   \<and> body (sent (transcribe_endpoint (scenario_exec True False False) sample_request st0)) =
       ErrorBody ''Transcription failed: Command failed: whisper''
   \<and> files (fs (final (transcribe_endpoint (scenario_exec True False False) sample_request st0)))
         (upload_path (generated sample_request)) = None
   \<and> files (fs (final (transcribe_endpoint (scenario_exec True False False) sample_request st0)))
         (upload_path (generated sample_request) @ ''.wav'') = None
   \<and> uncaught (transcribe_endpoint (scenario_exec True False False) sample_request st0) = None"
proof -
  let ?out = "transcribe_endpoint (scenario_exec True False False) sample_request st0"
  have a: "accepted sample_request"
    by (simp add: accepted_def model_defs scenario_defs)
  have f: "faults (fs (final ?out)) = (\<lambda>k q. None)"
    by (simp add: model_defs scenario_defs)
  have b: "body (sent ?out) = ErrorBody ''Transcription failed: Command failed: whisper''"
    by (simp add: model_defs scenario_defs)
  from uploads_removed_on_every_exit_path [OF a, of "scenario_exec True False False" st0] a b
  show ?thesis by (simp add: f)
qed

text \<open>
  C1 as stated fails: the \<open>finally\<close> block does not catch, so an error deleting the video
  keeps it from deleting the audio. On the exit path of success, with a video the file
  system refuses to delete, the request completes with the transcript and the audio file,
  whose deletion nothing refuses, is still there.
\<close>

theorem deletable_audio_left_after_video_error:
  "accepted sample_request
   \<and> sent (transcribe_endpoint (scenario_exec True True True) sample_request
         (undeletable ''uploads/3f9a'')) =
       \<lparr>status = 200, body = Transcript ''hello world''\<rparr>
   \<and> faults (fs (final (transcribe_endpoint (scenario_exec True True True) sample_request
         (undeletable ''uploads/3f9a'')))) OpUnlink
         (upload_path (generated sample_request) @ ''.wav'') = None
   \<and> files (fs (final (transcribe_endpoint (scenario_exec True True True) sample_request
         (undeletable ''uploads/3f9a''))))
         (upload_path (generated sample_request) @ ''.wav'') = Some ''RIFF''"
  by (simp add: accepted_def model_defs scenario_defs)

subsection \<open>Fallback after a failure of the primary strategy\<close>

text \<open>
  C2. When the extraction has succeeded and the attempt of the primary strategy
  (faster-whisper) raises, whatever the error, the handler runs the fallback strategy (the
  whisper command line) on the same audio path: over the whole request the commands
  executed are the decoder's, then those of the primary attempt, then the fallback's,
  which occurs exactly once among them; and the response is decided by the fallback alone:
  status 200 with its text as the transcript when it succeeds, its error otherwise.
\<close>

theorem fallback_after_primary_failure:
  assumes ext: "extractAudio exec (path f) (path f @ ''.wav'')
                  (console_log [''Extracting audio...'']
                    (console_log [''Processing video:'', originalname f] st)) = (Inr u, st3)"
      and prim: "transcribeWithFasterWhisper exec (path f @ ''.wav'')
                  (console_log [''Transcribing...''] st3) = (Inl e, st5)"
  shows "commands (trace (final (handler exec (Some f) st))) =
           commands (trace st) @
             ffmpeg_command (path f) (path f @ ''.wav'') # primary_commands st3 @
             [whisper_command (path f @ ''.wav'')]
       \<and> count_list
             (ffmpeg_command (path f) (path f @ ''.wav'') # primary_commands st3 @
              [whisper_command (path f @ ''.wav'')])
             (whisper_command (path f @ ''.wav'')) = 1
       \<and> sent (handler exec (Some f) st) =
           (case fst (transcribeWithWhisper exec (path f @ ''.wav'')
                   (console_log
                      [''Faster-whisper not available, falling back to standard whisper'']
                      st5)) of
              Inr t \<Rightarrow> \<lparr>status = 200, body = Transcript t\<rparr>
            | Inl e' \<Rightarrow> error_response e')"
proof -
  let ?a = "path f @ ''.wav''"
  let ?st5 = "console_log [''Faster-whisper not available, falling back to standard whisper''] st5"
  obtain r st6 where fb: "transcribeWithWhisper exec ?a ?st5 = (r, st6)"
    by (cases "transcribeWithWhisper exec ?a ?st5")
  have stage: "transcribe_stage exec ?a (console_log [''Transcribing...''] st3) = (r, st6)"
    using prim fb by (simp add: transcribe_stage_def)
  have c3: "commands (trace st3) = commands (trace st) @ [ffmpeg_command (path f) ?a]"
    using extractAudio_commands [OF ext] by simp
  have c5: "commands (trace st5) = commands (trace st3) @ primary_commands st3"
    using faster_commands [OF prim] by simp
  have c6: "commands (trace st6) = commands (trace st5) @ [whisper_command ?a]"
    using whisper_commands [OF fb] by simp
  have pipe: "run_pipeline exec f (path f) ?a st =
      (case r of Inl e' \<Rightarrow> (Inl e', st6)
       | Inr t \<Rightarrow> (Inr t, console_log [''Transcription complete''] st6))"
    using ext stage by (simp add: run_pipeline_def Let_def split: sum.splits)
  have fin: "commands (trace (final (handler exec (Some f) st))) = commands (trace st6)"
    using pipe by (cases r) (simp_all add: handler_Some)
  have cnt: "count_list
             (ffmpeg_command (path f) ?a # primary_commands st3 @ [whisper_command ?a])
             (whisper_command ?a) = 1"
    using whisper_not_ffmpeg [of ?a "path f" ?a]
    by (auto simp: count_primary_commands)
  have resp: "sent (handler exec (Some f) st) =
      (case r of Inr t \<Rightarrow> \<lparr>status = 200, body = Transcript t\<rparr> | Inl e' \<Rightarrow> error_response e')"
    using pipe by (cases r) (simp_all add: handler_Some)
  show ?thesis using fin c3 c5 c6 cnt resp fb by simp
qed

text \<open>The decoder succeeds, the interpreter of the primary strategy fails, the fallback
  writes \<open>fallback text\<close>.\<close>

theorem fallback_after_primary_failure_witness:
  "fst (extractAudio (scenario_exec True False True) (path sample_file)
         (path sample_file @ ''.wav'')
         (console_log [''Extracting audio...'']
           (console_log [''Processing video:'', originalname sample_file] st0))) = Inr ()
   \<and> fst (transcribeWithFasterWhisper (scenario_exec True False True)
         (path sample_file @ ''.wav'')
         (console_log [''Transcribing...'']
           (snd (extractAudio (scenario_exec True False True) (path sample_file)
                  (path sample_file @ ''.wav'')
                  (console_log [''Extracting audio...'']
                    (console_log [''Processing video:'', originalname sample_file] st0))))))
       = Inl (new_Error ''Transcription failed: Command failed: python3'')
   \<and> commands (trace (final (handler (scenario_exec True False True) (Some sample_file) st0))) =
       [ffmpeg_command ''uploads/3f9a'' ''uploads/3f9a.wav'', ''python3 /tmp/transcribe.py'',
        whisper_command ''uploads/3f9a.wav'']
   \<and> sent (handler (scenario_exec True False True) (Some sample_file) st0) =
       \<lparr>status = 200, body = Transcript ''fallback text''\<rparr>"
proof -
  let ?ex = "scenario_exec True False True"
  let ?a = "path sample_file @ ''.wav''"
  let ?st2 = "console_log [''Extracting audio...'']
                (console_log [''Processing video:'', originalname sample_file] st0)"
  let ?st3 = "snd (extractAudio ?ex (path sample_file) ?a ?st2)"
  let ?st4 = "console_log [''Transcribing...''] ?st3"
  let ?st5 = "snd (transcribeWithFasterWhisper ?ex ?a ?st4)"
  let ?e = "new_Error ''Transcription failed: Command failed: python3''"
  have e1: "fst (extractAudio ?ex (path sample_file) ?a ?st2) = Inr ()"
    by (simp add: model_defs scenario_defs)
  have e2: "fst (transcribeWithFasterWhisper ?ex ?a ?st4) = Inl ?e"
    by (simp add: model_defs scenario_defs)
  have ext: "extractAudio ?ex (path sample_file) ?a ?st2 = (Inr (), ?st3)"
    using e1 by (simp add: prod_eq_iff)
  have prim: "transcribeWithFasterWhisper ?ex ?a ?st4 = (Inl ?e, ?st5)"
    using e2 by (simp add: prod_eq_iff)
  have p3: "primary_commands ?st3 = [''python3 /tmp/transcribe.py'']"
    by (simp add: primary_commands_def model_defs scenario_defs)
  have fb: "fst (transcribeWithWhisper ?ex ?a
              (console_log [''Faster-whisper not available, falling back to standard whisper'']
                 ?st5)) = Inr ''fallback text''"
    by (simp add: model_defs scenario_defs)
  have t0: "trace st0 = []" "path sample_file = ''uploads/3f9a''"
    by (simp_all add: st0_def sample_file_def)
  have main: "commands (trace (final (handler ?ex (Some sample_file) st0))) =
        commands (trace st0) @
          [ffmpeg_command (path sample_file) ?a, ''python3 /tmp/transcribe.py'', whisper_command ?a]
      \<and> sent (handler ?ex (Some sample_file) st0) =
          \<lparr>status = 200, body = Transcript ''fallback text''\<rparr>"
    using fallback_after_primary_failure [OF ext prim] by (simp add: p3 fb)
  from main e1 e2 show ?thesis
    by (simp add: t0)
qed

subsection \<open>The upload filter and the uploads it lets pass\<close>

text \<open>
  C3. The claim: the filter accepts a file exactly when its lowercased extension is one of
  mp4, mov, avi, webm, mkv, flv, wmv. The code tests the extension with a regular
  expression that has no anchors, so an extension that only contains one of the seven is
  accepted as well: the extension of \<open>clip.mp4x\<close> is \<open>mp4x\<close>, which is not one of the
  seven, and the filter accepts the file.
\<close>

theorem filter_accepts_unlisted_extension:
  "lowered_ext ''clip.mp4x'' = ''mp4x''
   \<and> ''mp4x'' \<notin> set allowedTypes
   \<and> fileFilter ''clip.mp4x''"
  by (simp add: model_defs)

text \<open>
  C4. The claim: an upload whose extension is disallowed or missing gets a validation
  failure, and neither the extractor nor a transcription strategy runs. For the upload
  \<open>clip.mp4x\<close>, whose extension is not one of the seven, the endpoint runs the decoder and
  the primary strategy and answers with the transcript: the filter has let it pass.
\<close>

theorem unlisted_extension_is_processed:
  "lowered_ext ''clip.mp4x'' \<notin> set allowedTypes
   \<and> commands (trace (final (transcribe_endpoint (scenario_exec True True True) mp4x_request st0))) =
       [ffmpeg_command ''uploads/3f9a'' ''uploads/3f9a.wav'', ''python3 /tmp/transcribe.py'']
   \<and> sent (transcribe_endpoint (scenario_exec True True True) mp4x_request st0) =
       \<lparr>status = 200, body = Transcript ''hello world''\<rparr>"
  by (simp add: model_defs scenario_defs mp4x_request_def)

subsection \<open>The error of a failed extraction\<close>

text \<open>
  C5, as the code has it. When the decoder process fails (a non-zero exit code, a command
  that is not found), the extraction fails with a new error whose message is the fixed
  text \<open>Failed to extract audio from video\<close> and which carries no \<open>stderr\<close>; the captured
  standard error of the decoder is printed with \<open>console.error\<close>, as it is, and goes no
  further.
\<close>

theorem extraction_error_drops_stderr:
  assumes "exec (ffmpeg_command v a) (fs st) = (ExecFail msg err, w)"
  shows "fst (extractAudio exec v a st) =
           Inl \<lparr>message = ''Failed to extract audio from video'', stderr_of = None\<rparr>
       \<and> trace (snd (extractAudio exec v a st)) =
           trace st @ [Exec (ffmpeg_command v a), Console_error [''FFmpeg error:'', err]]
       \<and> fs (snd (extractAudio exec v a st)) = w"
  using extractAudio_fail [of exec v a st msg err w, OF assms] by (simp add: new_Error_def)

theorem extraction_error_drops_stderr_witness:
  "scenario_exec False False False (ffmpeg_command ''v.mp4'' ''v.mp4.wav'') (fs st0) =
     (ExecFail ''Command failed: ffmpeg'' ''Invalid data found when processing input'', empty_fs)
   \<and> fst (extractAudio (scenario_exec False False False) ''v.mp4'' ''v.mp4.wav'' st0) =
       Inl \<lparr>message = ''Failed to extract audio from video'', stderr_of = None\<rparr>
   \<and> trace (snd (extractAudio (scenario_exec False False False) ''v.mp4'' ''v.mp4.wav'' st0)) =
       [Exec (ffmpeg_command ''v.mp4'' ''v.mp4.wav''),
        Console_error [''FFmpeg error:'', ''Invalid data found when processing input'']]"
proof -
  have h: "scenario_exec False False False (ffmpeg_command ''v.mp4'' ''v.mp4.wav'') (fs st0) =
     (ExecFail ''Command failed: ffmpeg'' ''Invalid data found when processing input'', empty_fs)"
    by (simp add: scenario_exec_def ffmpeg_command_def st0_def)
  have t: "trace st0 = []" by (simp add: st0_def)
  from extraction_error_drops_stderr
         [of "scenario_exec False False False" "''v.mp4''" "''v.mp4.wav''" st0, OF h] h t
  show ?thesis by simp
qed

text \<open>
  C5 as stated fails: the error that is propagated does not carry the diagnostic output.
  The decoder fails with \<open>Invalid data found when processing input\<close> on its standard
  error; the error \<open>extractAudio\<close> throws has the fixed message and no \<open>stderr\<close>.
\<close>

theorem stderr_not_attached:
  "scenario_exec False False False (ffmpeg_command ''uploads/3f9a'' ''uploads/3f9a.wav'') (fs st0) =
     (ExecFail ''Command failed: ffmpeg'' ''Invalid data found when processing input'', empty_fs)
   \<and> fst (extractAudio (scenario_exec False False False) ''uploads/3f9a'' ''uploads/3f9a.wav'' st0) =
       Inl \<lparr>message = ''Failed to extract audio from video'', stderr_of = None\<rparr>"
  by (simp add: model_defs scenario_defs)

subsection \<open>The cleanup and the errors of a deletion\<close>

text \<open>
  C6, as the code has it. Whatever the outcome of the pipeline, the handler ends with the
  cleanup of the video path and the audio path, and the cleanup leaves the response as
  the pipeline chose it. The cleanup deletes the video if it exists and then the audio if
  it exists. When it raises nothing, both files are gone, its only effects are these
  deletions, in this order, and a second cleanup changes nothing. When a deletion raises,
  the error is the file system's, it is not caught (it is the error the handler ends
  with) and not logged, and the cleanup ends there: after an error on the video the file
  system is unchanged and the deletion of the video is the only effect, so the audio file
  is left; an error on the audio comes after the deletion of the video.
\<close>

theorem cleanup_after_every_outcome:
  assumes "path f \<noteq> []"
  shows "handler exec (Some f) st =
           (case run_pipeline exec f (path f) (path f @ ''.wav'') st of
              (Inr t, s) \<Rightarrow>
                finish \<lparr>status = 200, body = Transcript t\<rparr>
                  (Some (path f)) (Some (path f @ ''.wav'')) s
            | (Inl e, s) \<Rightarrow>
                finish (error_response e) (Some (path f)) (Some (path f @ ''.wav''))
                  (console_error [''Transcription error:'', message e] s))
       \<and> finish r (Some (path f)) (Some (path f @ ''.wav'')) st1 =
           \<lparr>sent = r,
            uncaught = fst (cleanup (Some (path f)) (Some (path f @ ''.wav'')) st1),
            final = snd (cleanup (Some (path f)) (Some (path f @ ''.wav'')) st1)\<rparr>
       \<and> (case cleanup (Some (path f)) (Some (path f @ ''.wav'')) st1 of
            (None, st2) \<Rightarrow>
              files (fs st2) = (files (fs st1))(path f := None, path f @ ''.wav'' := None)
              \<and> trace st2 =
                  trace st1 @ map Unlink (filter (existsSync st1) [path f, path f @ ''.wav''])
              \<and> cleanup (Some (path f)) (Some (path f @ ''.wav'')) st2 = (None, st2)
          | (Some e, st2) \<Rightarrow>
              faults (fs st1) OpUnlink (if refuses st1 (path f) then path f else path f @ ''.wav'')
                = Some (message e)
              \<and> (if refuses st1 (path f)
                  then fs st2 = fs st1 \<and> trace st2 = trace st1 @ [Unlink (path f)]
                  else files (fs st2) = (files (fs st1))(path f := None)
                       \<and> trace st2 =
                           trace st1 @ map Unlink (filter (existsSync st1) [path f]) @
                             [Unlink (path f @ ''.wav'')]))"
proof -
  let ?v = "path f" and ?a = "path f @ ''.wav''"
  have c: "cleanup (Some ?v) (Some ?a) st1 =
     (if refuses st1 ?v
      then (Some (new_Error (the (faults (fs st1) OpUnlink ?v))), emit (Unlink ?v) st1)
      else if refuses st1 ?a
        then (Some (new_Error (the (faults (fs st1) OpUnlink ?a))),
              emit (Unlink ?a) (delete_step ?v st1))
      else (None, delete_step ?a (delete_step ?v st1)))"
    using assms by (simp add: cleanup_Some)
  have f: "finish r (Some ?v) (Some ?a) st1 =
           \<lparr>sent = r, uncaught = fst (cleanup (Some ?v) (Some ?a) st1),
            final = snd (cleanup (Some ?v) (Some ?a) st1)\<rparr>"
    by (simp add: finish_def split: prod.splits)
  have k: "case cleanup (Some ?v) (Some ?a) st1 of
            (None, st2) \<Rightarrow>
              files (fs st2) = (files (fs st1))(?v := None, ?a := None)
              \<and> trace st2 = trace st1 @ map Unlink (filter (existsSync st1) [?v, ?a])
              \<and> cleanup (Some ?v) (Some ?a) st2 = (None, st2)
          | (Some e, st2) \<Rightarrow>
              faults (fs st1) OpUnlink (if refuses st1 ?v then ?v else ?a) = Some (message e)
              \<and> (if refuses st1 ?v
                  then fs st2 = fs st1 \<and> trace st2 = trace st1 @ [Unlink ?v]
                  else files (fs st2) = (files (fs st1))(?v := None)
                       \<and> trace st2 =
                           trace st1 @ map Unlink (filter (existsSync st1) [?v]) @ [Unlink ?a])"
  proof (cases "refuses st1 ?v")
    case True
    with c refuses_fault [OF True] show ?thesis by (simp add: new_Error_def)
  next
    case v: False
    show ?thesis
    proof (cases "refuses st1 ?a")
      case True
      with v c refuses_fault [OF True] show ?thesis by (simp add: new_Error_def)
    next
      case False
      have "cleanup (Some ?v) (Some ?a) (delete_step ?a (delete_step ?v st1)) =
              (None, delete_step ?a (delete_step ?v st1))"
        using assms by (simp add: cleanup_Some delete_step_absent)
      with v False c show ?thesis by simp
    qed
  qed
  from handler_Some [of exec f st] f k show ?thesis by simp
qed

text \<open>The upload and its audio file are on disk and every tool succeeds: the cleanup
  deletes the video, then the audio, and leaves no file.\<close>

theorem cleanup_after_every_outcome_witness:
  "path sample_file \<noteq> []
   \<and> sent (handler (scenario_exec True True True) (Some sample_file)
         (put_file ''uploads/3f9a'' ''ftypisom'' st0)) =
       \<lparr>status = 200, body = Transcript ''hello world''\<rparr>
   \<and> uncaught (handler (scenario_exec True True True) (Some sample_file)
         (put_file ''uploads/3f9a'' ''ftypisom'' st0)) = None
   \<and> fst (cleanup (Some (path sample_file)) (Some (path sample_file @ ''.wav''))
         (put_file ''uploads/3f9a.wav'' ''RIFF'' (put_file ''uploads/3f9a'' ''ftypisom'' st0))) = None
   \<and> files (fs (snd (cleanup (Some (path sample_file)) (Some (path sample_file @ ''.wav''))
         (put_file ''uploads/3f9a.wav'' ''RIFF'' (put_file ''uploads/3f9a'' ''ftypisom'' st0)))))
       = Map.empty
   \<and> trace (snd (cleanup (Some (path sample_file)) (Some (path sample_file @ ''.wav''))
         (put_file ''uploads/3f9a.wav'' ''RIFF'' (put_file ''uploads/3f9a'' ''ftypisom'' st0))))
       = [Unlink ''uploads/3f9a'', Unlink ''uploads/3f9a.wav'']"
proof -
  let ?v = "path sample_file" and ?a = "path sample_file @ ''.wav''"
  let ?st = "put_file ''uploads/3f9a'' ''ftypisom'' st0"
  let ?st1 = "put_file ''uploads/3f9a.wav'' ''RIFF'' ?st"
  let ?ex = "scenario_exec True True True"
  have p: "path sample_file \<noteq> []" by (simp add: sample_file_def)
  have s: "sent (handler ?ex (Some sample_file) ?st) =
             \<lparr>status = 200, body = Transcript ''hello world''\<rparr>"
    by (simp add: model_defs scenario_defs)
  have u: "uncaught (handler ?ex (Some sample_file) ?st) = None"
    by (simp add: model_defs scenario_defs)
  have n: "fst (cleanup (Some ?v) (Some ?a) ?st1) = None"
    by (simp add: model_defs scenario_defs)
  then obtain st2 where c: "cleanup (Some ?v) (Some ?a) ?st1 = (None, st2)"
    by (cases "cleanup (Some ?v) (Some ?a) ?st1") auto
  have e: "existsSync ?st1 ?v" "existsSync ?st1 ?a" "trace ?st1 = []"
          "(files (fs ?st1))(?v := None, ?a := None) = Map.empty"
          "?v = ''uploads/3f9a''" "?a = ''uploads/3f9a.wav''"
    by (simp_all add: model_defs scenario_defs fun_eq_iff)
  from cleanup_after_every_outcome [OF p, of ?ex ?st _ ?st1]
  have "files (fs st2) = (files (fs ?st1))(?v := None, ?a := None)
        \<and> trace st2 = trace ?st1 @ map Unlink (filter (existsSync ?st1) [?v, ?a])"
    by (simp add: c)
  with e have "files (fs st2) = Map.empty
        \<and> trace st2 = [Unlink ''uploads/3f9a'', Unlink ''uploads/3f9a.wav'']"
    by simp
  with p s u n c show ?thesis by simp
qed

text \<open>
  C6 as stated fails: an error of a deletion is neither logged nor kept from the caller of
  the handler, and it ends the cleanup. Both recognisers fail and the video cannot be
  deleted: the error of \<open>fs.unlinkSync\<close> leaves the handler, \<open>console.error\<close> has printed
  the three errors of the pipeline and nothing about the deletion, the deletion call is
  the last effect, and the audio file, which exists, has not been deleted.
\<close>

theorem deletion_error_escapes_unlogged:
  "uncaught (transcribe_endpoint (scenario_exec True False False) sample_request
       (undeletable ''uploads/3f9a'')) =
     Some (new_Error ''EPERM: operation not permitted, unlink'')
   \<and> console_errors (trace (final (transcribe_endpoint (scenario_exec True False False)
         sample_request (undeletable ''uploads/3f9a'')))) =
       [[''Faster-Whisper error:'', ''Command failed: python3''],
        [''Whisper error:'', ''Command failed: whisper''],
        [''Transcription error:'', ''Transcription failed: Command failed: whisper'']]
   \<and> last (trace (final (transcribe_endpoint (scenario_exec True False False)
         sample_request (undeletable ''uploads/3f9a'')))) = Unlink ''uploads/3f9a''
   \<and> files (fs (final (transcribe_endpoint (scenario_exec True False False)
         sample_request (undeletable ''uploads/3f9a'')))) ''uploads/3f9a.wav'' = Some ''RIFF''"
  by (simp add: model_defs scenario_defs)

subsection \<open>What the extractor asks of the decoder\<close>

text \<open>
  C7, as the code has it. Given a source path and a destination path, the extractor runs
  one command, the decoder with the arguments \<open>-i\<close> source, \<open>-vn\<close>, \<open>-acodec pcm_s16le\<close>
  (16-bit linear PCM), \<open>-ar 16000\<close> (16 kHz), \<open>-ac 1\<close> (mono) and the destination. The
  overwrite option \<open>-y\<close> is not among them. The file system afterwards is the one the
  decoder leaves, and the extraction succeeds exactly when the decoder does: what is at
  the destination, and whether a file that was there is replaced, is the decoder's doing.
\<close>

theorem extractor_runs_decoder_once:
  "commands (trace (snd (extractAudio exec v a st))) =
     commands (trace st) @ [unwords (ffmpeg_arguments v a)]
   \<and> ffmpeg_arguments v a =
       [''ffmpeg'', ''-i'', quoted v, ''-vn'', ''-acodec'', ''pcm_s16le'', ''-ar'', ''16000'',
        ''-ac'', ''1'', quoted a]
   \<and> ''-y'' \<notin> set (ffmpeg_arguments v a)
   \<and> fs (snd (extractAudio exec v a st)) = snd (exec (unwords (ffmpeg_arguments v a)) (fs st))
   \<and> fst (extractAudio exec v a st) =
       (case fst (exec (unwords (ffmpeg_arguments v a)) (fs st)) of
          ExecOk out err \<Rightarrow> Inr ()
        | ExecFail msg err \<Rightarrow> Inl (new_Error ''Failed to extract audio from video''))"
proof -
  have c: "commands (trace (snd (extractAudio exec v a st))) =
     commands (trace st) @ [ffmpeg_command v a]"
    by (rule extractAudio_commands [OF prod.collapse [symmetric]])
  have y: "''-y'' \<notin> set (ffmpeg_arguments v a)"
    by (simp add: ffmpeg_arguments_def ffmpeg_options_def quoted_def)
  have l: "ffmpeg_arguments v a =
       [''ffmpeg'', ''-i'', quoted v, ''-vn'', ''-acodec'', ''pcm_s16le'', ''-ar'', ''16000'',
        ''-ac'', ''1'', quoted a]"
    by (simp add: ffmpeg_arguments_def ffmpeg_options_def)
  from c y l extractAudio_fs [of exec v a st] extractAudio_result [of exec v a st]
  show ?thesis by (simp only: ffmpeg_command_arguments) simp
qed

text \<open>
  C7 as stated fails: a file that exists at the destination is not overwritten. The
  command for the upload \<open>uploads/3f9a\<close> has the eleven arguments below, without \<open>-y\<close>;
  with a decoder that replaces an existing output only on \<open>-y\<close>, as ffmpeg does, the
  extraction fails and the old content is still at the destination.
\<close>

theorem existing_audio_not_overwritten:
  "split_spaces [] (ffmpeg_command ''uploads/3f9a'' ''uploads/3f9a.wav'') =
     [''ffmpeg'', ''-i'', quoted ''uploads/3f9a'', ''-vn'', ''-acodec'', ''pcm_s16le'', ''-ar'',
      ''16000'', ''-ac'', ''1'', quoted ''uploads/3f9a.wav'']
   \<and> fst (extractAudio careful_decoder ''uploads/3f9a'' ''uploads/3f9a.wav''
         (put_file ''uploads/3f9a.wav'' ''old'' st0)) =
       Inl (new_Error ''Failed to extract audio from video'')
   \<and> files (fs (snd (extractAudio careful_decoder ''uploads/3f9a'' ''uploads/3f9a.wav''
         (put_file ''uploads/3f9a.wav'' ''old'' st0)))) ''uploads/3f9a.wav'' = Some ''old''"
  by (simp add: model_defs scenario_defs careful_decoder_def unquote_def quoted_def)

subsection \<open>The paths a request writes\<close>

text \<open>
  C8. The claim: the temporary paths a request writes are unique to it, so two requests
  never write the same path. The primary strategy writes its script to the fixed path
  \<open>/tmp/transcribe.py\<close>: two requests with different generated names both write it.
\<close>

theorem script_path_shared_between_requests:
  "generated sample_request \<noteq> generated second_request
   \<and> written (trace (final (transcribe_endpoint (scenario_exec True True True) sample_request st0)))
       = [''/tmp/transcribe.py'']
   \<and> written (trace (final (transcribe_endpoint (scenario_exec True True True) second_request st0)))
       = [''/tmp/transcribe.py'']"
  by (simp add: model_defs scenario_defs second_request_def)

subsection \<open>The response to a failed extraction\<close>



subsection \<open>The transcript is trimmed\<close>

text \<open>
  C10. Whichever strategy produced it, a transcript in the response of the endpoint has no
  white space at its beginning and none at its end: both strategies return the trimmed
  output (of the interpreter, of the text file).
\<close>

theorem transcript_trimmed:
  "body (sent (transcribe_endpoint exec req st)) = Transcript t \<Longrightarrow> no_outer_ws t"
  by (auto simp: transcribe_endpoint_def refused_def Let_def trim_no_outer_ws
           split: option.splits if_splits dest!: handler_trim)

text \<open>The primary strategy prints \<open>hello world\<close> with a space before and a line feed
  after.\<close>

theorem transcript_trimmed_witness:
  "body (sent (transcribe_endpoint (scenario_exec True True True) sample_request st0))
     = Transcript ''hello world''
   \<and> no_outer_ws ''hello world''"
proof -
  have e: "body (sent (transcribe_endpoint (scenario_exec True True True) sample_request st0))
             = Transcript ''hello world''"
    by (simp add: model_defs scenario_defs)
  from transcript_trimmed [OF e] e show ?thesis by simp
qed

end
